theory Spec2Isabelle
  imports Main
begin

section \<open>Path resolver (src/utils/environment.ts)\<close>

text \<open>
  The build-time variables of \<^verbatim>\<open>import.meta.env\<close> that the module reads. A variable that
  is not defined reads as \<^verbatim>\<open>undefined\<close> in the source, here as \<open>None\<close>.
\<close>

record env =
  VITE_APP_ENV :: "string option"
  VITE_USE_EMULATORS :: "string option"
  VITE_FIRESTORE_ROOT_PATH :: "string option"
  VITE_FIREBASE_API_KEY :: "string option"
  VITE_FIREBASE_AUTH_DOMAIN :: "string option"
  VITE_FIREBASE_PROJECT_ID :: "string option"
  VITE_FIREBASE_STORAGE_BUCKET :: "string option"
  VITE_FIREBASE_MESSAGING_SENDER_ID :: "string option"
  VITE_FIREBASE_APP_ID :: "string option"

datatype AppEnvironment = local | preview | production

text \<open>
  \<^verbatim>\<open>v || ''\<close> on a value that is a string or undefined: both undefined and the empty
  string are falsy, so the result is the empty string for either.
\<close>

definition or_empty :: "string option \<Rightarrow> string" where
  "or_empty v = (case v of None \<Rightarrow> [] | Some s \<Rightarrow> s)"

definition getAppEnvironment :: "env \<Rightarrow> AppEnvironment" where
  "getAppEnvironment e =
     (if VITE_APP_ENV e = Some ''production'' then production
      else if VITE_APP_ENV e = Some ''preview'' then preview
      else local)"

definition useEmulators_env :: "env \<Rightarrow> bool" where
  "useEmulators_env e = (VITE_USE_EMULATORS e = Some ''true'')"

definition getFirestoreRootPath :: "env \<Rightarrow> string" where
  "getFirestoreRootPath e = or_empty (VITE_FIRESTORE_ROOT_PATH e)"

text \<open>
  \<^verbatim>\<open>if (!rootPath) return collectionName; return `${rootPath}/${collectionName}`\<close>:
  a string is falsy exactly when it is empty.
\<close>

definition getCollectionPath :: "env \<Rightarrow> string \<Rightarrow> string" where
  "getCollectionPath e collectionName =
     (let rootPath = getFirestoreRootPath e
      in if rootPath = [] then collectionName
         else rootPath @ ''/'' @ collectionName)"

text \<open>
  \<^verbatim>\<open>return `${getCollectionPath(collectionName)}/${documentId}`\<close>: a template literal over
  two strings. The function has no check of its arguments and no \<^verbatim>\<open>throw\<close>, so it is a
  total function to strings.
\<close>

definition getDocumentPath :: "env \<Rightarrow> string \<Rightarrow> string \<Rightarrow> string" where
  "getDocumentPath e collectionName documentId =
     getCollectionPath e collectionName @ ''/'' @ documentId"

subsection \<open>Configuration and its validation\<close>

record firebase_config =
  apiKey :: string
  authDomain :: string
  projectId :: string
  storageBucket :: string
  messagingSenderId :: string
  appId :: string

text \<open>
  The optional \<^verbatim>\<open>emulators\<close> block of ports is left out: the validation never reads it.
\<close>

record EnvironmentConfig =
  appEnv :: AppEnvironment
  useEmulators :: bool
  firestoreRootPath :: string
  firebase :: firebase_config

definition getEnvironmentConfig :: "env \<Rightarrow> EnvironmentConfig" where
  "getEnvironmentConfig e =
     \<lparr> appEnv = getAppEnvironment e,
       useEmulators = useEmulators_env e,
       firestoreRootPath = getFirestoreRootPath e,
       firebase =
         \<lparr> apiKey = or_empty (VITE_FIREBASE_API_KEY e),
           authDomain = or_empty (VITE_FIREBASE_AUTH_DOMAIN e),
           projectId = or_empty (VITE_FIREBASE_PROJECT_ID e),
           storageBucket = or_empty (VITE_FIREBASE_STORAGE_BUCKET e),
           messagingSenderId = or_empty (VITE_FIREBASE_MESSAGING_SENDER_ID e),
           appId = or_empty (VITE_FIREBASE_APP_ID e) \<rparr> \<rparr>"

text \<open>\<^verbatim>\<open>Array.prototype.join\<close> on an array of strings.\<close>

fun join :: "string list \<Rightarrow> string \<Rightarrow> string" where
  "join [] sep = []"
| "join [x] sep = x"
| "join (x # y # ys) sep = x @ sep @ join (y # ys) sep"

text \<open>
  What the function sends to the console: the one \<^verbatim>\<open>console.warn\<close> of the source, whose
  text says that \<^verbatim>\<open>VITE_FIRESTORE_ROOT_PATH\<close> is not set and that data will be stored at
  the root level of Firestore.
\<close>

datatype console_event = warn_root_path_not_set

definition newline :: string where
  "newline = [CHR 0x0A]"

text \<open>
  The result is the console output together with either the message of the thrown
  \<^verbatim>\<open>Error\<close> (\<open>Inl\<close>) or the normal return (\<open>Inr ()\<close>). The three \<^verbatim>\<open>if\<close> statements and the
  final test follow the source in order; \<^verbatim>\<open>!s\<close> on a string is \<open>s = []\<close>.
\<close>

definition validateEnvironmentConfig :: "env \<Rightarrow> console_event list \<times> (string + unit)" where
  "validateEnvironmentConfig e =
     (let config = getEnvironmentConfig e;
          errors0 = [];
          errors1 = (if apiKey (firebase config) = [] \<and> \<not> useEmulators config
                     then errors0 @ [''VITE_FIREBASE_API_KEY is required''] else errors0);
          errors2 = (if projectId (firebase config) = []
                     then errors1 @ [''VITE_FIREBASE_PROJECT_ID is required''] else errors1);
          console = (if appEnv config \<noteq> local \<and> firestoreRootPath config = []
                     then [warn_root_path_not_set] else [])
      in if length errors2 > 0
         then (console,
               Inl (''Environment configuration errors:'' @ newline @
                    join (map (\<lambda>m. ''  - '' @ m) errors2) newline))
         else (console, Inr ()))"

section \<open>The document store and the documents kept in it\<close>

text \<open>
  Times are JavaScript time values: milliseconds since the epoch, as an integer. A
  Firestore \<^verbatim>\<open>Timestamp\<close> written with \<^verbatim>\<open>Timestamp.fromDate\<close> and read back with
  \<^verbatim>\<open>toDate()\<close> is the same time value, so a stored time is kept as its time value.
  The fields follow \<^verbatim>\<open>FirestoreUser\<close>, \<^verbatim>\<open>FirestoreFamily\<close> and the invite data of
  \<^verbatim>\<open>createFamilyInvite\<close>; the \<^verbatim>\<open>createdAt\<close> and \<^verbatim>\<open>updatedAt\<close> of users and invites carry
  a prefix, since record fields share one name space. The optional
  \<^verbatim>\<open>monthlyAnomalies\<close> of a family is left out: no operation below reads or writes it.
  The array fields and the time fields are present in every stored document (every
  writer of the source sets them), so the \<^verbatim>\<open>|| []\<close> and \<^verbatim>\<open>|| new Date()\<close> defaults of
  the converters are never taken.
\<close>

record FirestoreUser =
  email :: string
  displayName :: string
  photoUrl :: "string option"
  families :: "string list"
  user_createdAt :: int
  user_updatedAt :: int

record FirestoreFamily =
  name :: string
  createdBy :: string
  members :: "string list"
  createdAt :: int
  updatedAt :: int

text \<open>\<^verbatim>\<open>Family\<close>: the stored fields together with the document id.\<close>

record Family = FirestoreFamily +
  Family_id :: string

datatype invite_status = pending | accepted | expired

record FirestoreInvite =
  familyId :: string
  familyName :: string
  invitedBy :: string
  invitedEmail :: "string option"
  invite_createdAt :: int
  expiresAt :: int
  status :: invite_status

record FamilyInvite = FirestoreInvite +
  FamilyInvite_id :: string

text \<open>
  A write that reached the store: the collection name and document id that
  \<^verbatim>\<open>getDocRef\<close> was called with, under \<^verbatim>\<open>setDoc\<close> or \<^verbatim>\<open>updateDoc\<close>.
\<close>

datatype store_write = setDoc string string | updateDoc string string

text \<open>
  The store of one environment: its three collections, and the log of the writes it has
  received, oldest first. The environment prefix of \<^verbatim>\<open>getCollectionPath\<close> is fixed for
  the life of the process, so the collections are addressed by their names. Reads and
  writes reach the store one at a time and the store answers each of them: an
  unreachable store and interleaved callers are outside this model.
\<close>

record world =
  users_coll :: "string \<rightharpoonup> FirestoreUser"
  families_coll :: "string \<rightharpoonup> FirestoreFamily"
  invites_coll :: "string \<rightharpoonup> FirestoreInvite"
  writes :: "store_write list"

text \<open>
  What a function throws: an \<^verbatim>\<open>Error\<close> with its message, or the store's own
  \<^verbatim>\<open>FirestoreError\<close> with its code.
\<close>

datatype thrown = Error string | FirestoreError string

text \<open>
  \<^verbatim>\<open>updateDoc(ref, fields)\<close> changes the named fields of an existing document and fails
  with \<^verbatim>\<open>not-found\<close> when there is no document at \<^verbatim>\<open>ref\<close>. The fields are given as
  the function \<open>f\<close> on the stored document.
\<close>

definition updateDoc_users ::
  "world \<Rightarrow> string \<Rightarrow> (FirestoreUser \<Rightarrow> FirestoreUser) \<Rightarrow> thrown + world" where
  "updateDoc_users w i f =
     (case users_coll w i of
        None \<Rightarrow> Inl (FirestoreError ''not-found'')
      | Some d \<Rightarrow> Inr (w\<lparr> users_coll := (users_coll w)(i \<mapsto> f d),
                          writes := writes w @ [updateDoc ''users'' i] \<rparr>))"

definition updateDoc_families ::
  "world \<Rightarrow> string \<Rightarrow> (FirestoreFamily \<Rightarrow> FirestoreFamily) \<Rightarrow> thrown + world" where
  "updateDoc_families w i f =
     (case families_coll w i of
        None \<Rightarrow> Inl (FirestoreError ''not-found'')
      | Some d \<Rightarrow> Inr (w\<lparr> families_coll := (families_coll w)(i \<mapsto> f d),
                          writes := writes w @ [updateDoc ''families'' i] \<rparr>))"

definition updateDoc_invites ::
  "world \<Rightarrow> string \<Rightarrow> (FirestoreInvite \<Rightarrow> FirestoreInvite) \<Rightarrow> thrown + world" where
  "updateDoc_invites w i f =
     (case invites_coll w i of
        None \<Rightarrow> Inl (FirestoreError ''not-found'')
      | Some d \<Rightarrow> Inr (w\<lparr> invites_coll := (invites_coll w)(i \<mapsto> f d),
                          writes := writes w @ [updateDoc ''invites'' i] \<rparr>))"

text \<open>\<^verbatim>\<open>setDoc(ref, data)\<close> creates or replaces the document.\<close>

definition setDoc_invites :: "world \<Rightarrow> string \<Rightarrow> FirestoreInvite \<Rightarrow> world" where
  "setDoc_invites w i d =
     w\<lparr> invites_coll := (invites_coll w)(i \<mapsto> d),
        writes := writes w @ [setDoc ''invites'' i] \<rparr>"

text \<open>\<^verbatim>\<open>arrayUnion(x)\<close> on an array field: \<open>x\<close> is appended unless already present.\<close>

definition arrayUnion :: "string list \<Rightarrow> string \<Rightarrow> string list" where
  "arrayUnion xs x = (if x \<in> set xs then xs else xs @ [x])"

text \<open>
  \<^verbatim>\<open>try { ... } catch (error) { throw new Error(msg) }\<close>: whatever the body threw is
  replaced by \<open>Error msg\<close>; the writes the body made before it threw stay made.
\<close>

definition catch_rethrow :: "string \<Rightarrow> (thrown + 'a) \<times> world \<Rightarrow> (thrown + 'a) \<times> world" where
  "catch_rethrow msg r =
     (case r of (Inl _, w) \<Rightarrow> (Inl (Error msg), w) | (Inr v, w) \<Rightarrow> (Inr v, w))"

section \<open>User documents (the auth service part of src/services/firebase.ts)\<close>

text \<open>
  The body of the \<^verbatim>\<open>try\<close> block of \<^verbatim>\<open>addFamilyToUser\<close>. \<open>srv\<close> is the time the store
  puts in place of \<^verbatim>\<open>serverTimestamp()\<close>.
\<close>

definition addFamilyToUser_try ::
  "int \<Rightarrow> string \<Rightarrow> string \<Rightarrow> world \<Rightarrow> (thrown + unit) \<times> world" where
  "addFamilyToUser_try srv userId fid w =
     (case users_coll w userId of
        None \<Rightarrow> (Inl (Error ''User not found''), w)
      | Some userData \<Rightarrow>
          if fid \<notin> set (families userData)
          then (case updateDoc_users w userId
                       (\<lambda>d. d\<lparr> families := families userData @ [fid],
                                user_updatedAt := srv \<rparr>) of
                  Inl err \<Rightarrow> (Inl err, w)
                | Inr w' \<Rightarrow> (Inr (), w'))
          else (Inr (), w))"

definition addFamilyToUser ::
  "int \<Rightarrow> string \<Rightarrow> string \<Rightarrow> world \<Rightarrow> (thrown + unit) \<times> world" where
  "addFamilyToUser srv userId fid w =
     catch_rethrow ''Failed to add family'' (addFamilyToUser_try srv userId fid w)"

section \<open>Family service\<close>

definition convertFirestoreFamily :: "string \<Rightarrow> FirestoreFamily \<Rightarrow> Family" where
  "convertFirestoreFamily i d =
     \<lparr> name = name d, createdBy = createdBy d, members = members d,
       createdAt = createdAt d, updatedAt = updatedAt d, Family_id = i \<rparr>"

definition getFamilyById :: "world \<Rightarrow> string \<Rightarrow> Family option" where
  "getFamilyById w fid = map_option (convertFirestoreFamily fid) (families_coll w fid)"

definition getInvite :: "world \<Rightarrow> string \<Rightarrow> FamilyInvite option" where
  "getInvite w inviteId =
     map_option
       (\<lambda>d. \<lparr> familyId = familyId d, familyName = familyName d, invitedBy = invitedBy d,
              invitedEmail = invitedEmail d, invite_createdAt = invite_createdAt d,
              expiresAt = expiresAt d, status = status d, FamilyInvite_id = inviteId \<rparr>)
       (invites_coll w inviteId)"

subsection \<open>Dates\<close>

text \<open>
  \<^verbatim>\<open>d.setDate(d.getDate() + n)\<close> works on the local calendar. By ECMAScript,
  \<^verbatim>\<open>getDate()\<close> is the day of the month of \<^verbatim>\<open>LocalTime(t)\<close>, and \<^verbatim>\<open>setDate(dt)\<close> sets the
  time value to \<^verbatim>\<open>UTC(MakeDate(MakeDay(year, month, dt), TimeWithinDay(LocalTime(t))))\<close>;
  with \<^verbatim>\<open>dt\<close> the current day of the month plus \<open>n\<close>, the day number made is the local day
  number plus \<open>n\<close>, so the new local time is the old local time plus \<open>n\<close> days of
  \<^verbatim>\<open>msPerDay\<close> milliseconds. The offset of the host's time zone is
  \<^verbatim>\<open>LocalTZA(t, isUTC)\<close>, given here as the parameter \<open>tza\<close>: with \<open>isUTC\<close> true, \<open>t\<close> is
  a UTC time value, otherwise a local one.
\<close>

definition msPerDay :: int where
  "msPerDay = 86400000"

definition LocalTime :: "(int \<Rightarrow> bool \<Rightarrow> int) \<Rightarrow> int \<Rightarrow> int" where
  "LocalTime tza t = t + tza t True"

definition UTC :: "(int \<Rightarrow> bool \<Rightarrow> int) \<Rightarrow> int \<Rightarrow> int" where
  "UTC tza t = t - tza t False"

definition setDate_getDate_plus :: "(int \<Rightarrow> bool \<Rightarrow> int) \<Rightarrow> int \<Rightarrow> int \<Rightarrow> int" where
  "setDate_getDate_plus tza t n = UTC tza (LocalTime tza t + n * msPerDay)"

text \<open>
  \<^verbatim>\<open>Timestamp.fromDate(date)\<close> splits the time value into whole seconds
  (\<^verbatim>\<open>Math.floor(ms / 1000)\<close>) and nanoseconds and builds a \<^verbatim>\<open>Timestamp\<close>, whose constructor
  throws \<^verbatim>\<open>invalid-argument\<close> when the seconds lie before 0001-01-01T00:00:00Z
  (-62135596800) or at or after 10000-01-01T00:00:00Z (253402300800). The nanoseconds
  made from a time value always lie in the range the constructor accepts. What is
  stored reads back as the same time value. A \<^verbatim>\<open>Date\<close> itself ends at time value
  8640000000000000, far beyond the range of a \<^verbatim>\<open>Timestamp\<close>; clock readings so close to
  that end that \<^verbatim>\<open>setDate\<close> would leave the range of \<^verbatim>\<open>Date\<close> are outside this model.
\<close>

definition Timestamp_fromDate :: "int \<Rightarrow> thrown + int" where
  "Timestamp_fromDate ms =
     (let seconds = ms div 1000
      in if seconds < - 62135596800 \<or> seconds \<ge> 253402300800
         then Inl (FirestoreError ''invalid-argument'')
         else Inr ms)"

subsection \<open>Invites\<close>

text \<open>
  \<open>auth\<close> is \<^verbatim>\<open>getCurrentAuthUser()\<close>: the uid of the signed-in user, if any. \<open>now\<close> is
  the clock reading of the first \<^verbatim>\<open>new Date()\<close> (the one the expiry is computed from),
  \<open>now'\<close> that of the \<^verbatim>\<open>new Date()\<close> in the returned object, \<open>srv\<close> the time the store
  puts in place of \<^verbatim>\<open>serverTimestamp()\<close>, and \<open>newId\<close> the result of \<^verbatim>\<open>generateId()\<close>.
  The invite data, with its \<^verbatim>\<open>Timestamp.fromDate(expiresAt)\<close>, is built before the
  \<^verbatim>\<open>try\<close> block, so what \<^verbatim>\<open>Timestamp.fromDate\<close> throws leaves the function as it is.
  The \<^verbatim>\<open>try\<close> block holds the \<^verbatim>\<open>setDoc\<close> and the \<^verbatim>\<open>return\<close> only; \<^verbatim>\<open>setDoc\<close> creates or
  replaces and so has no failing case in this store, which leaves the \<^verbatim>\<open>catch\<close> branch
  ("Failed to create invite") without a case here. The same holds for the \<^verbatim>\<open>catch\<close>
  branches of \<^verbatim>\<open>getFamilyById\<close> and \<^verbatim>\<open>getInvite\<close>, which guard a read.
\<close>

definition createFamilyInvite ::
  "string option \<Rightarrow> (int \<Rightarrow> bool \<Rightarrow> int) \<Rightarrow> int \<Rightarrow> int \<Rightarrow> int \<Rightarrow> string \<Rightarrow> string \<Rightarrow> world
     \<Rightarrow> (thrown + FamilyInvite) \<times> world" where
  "createFamilyInvite auth tza now now' srv newId fid w =
     (case auth of
        None \<Rightarrow> (Inl (Error ''You must be logged in''), w)
      | Some uid \<Rightarrow>
     (case getFamilyById w fid of
        None \<Rightarrow> (Inl (Error ''Family not found''), w)
      | Some family \<Rightarrow>
          if uid \<notin> set (members family)
          then (Inl (Error ''You are not a member of this family''), w)
          else
            let inviteId = newId;
                expires = setDate_getDate_plus tza now 7
            in (case Timestamp_fromDate expires of
                  Inl err \<Rightarrow> (Inl err, w)
                | Inr stamp \<Rightarrow>
                    let inviteData =
                          \<lparr> familyId = fid, familyName = name family, invitedBy = uid,
                            invitedEmail = None, invite_createdAt = srv,
                            expiresAt = stamp, status = pending \<rparr>
                    in (Inr \<lparr> familyId = fid, familyName = name family, invitedBy = uid,
                              invitedEmail = None, invite_createdAt = now',
                              expiresAt = expires, status = pending,
                              FamilyInvite_id = inviteId \<rparr>,
                        setDoc_invites w inviteId inviteData))))"

text \<open>
  The body of the \<^verbatim>\<open>try\<close> block of \<^verbatim>\<open>acceptFamilyInvite\<close>: the three awaited calls in
  their order, each one stopping the block when it throws.
\<close>

definition acceptFamilyInvite_try ::
  "string \<Rightarrow> int \<Rightarrow> string \<Rightarrow> FamilyInvite \<Rightarrow> Family \<Rightarrow> world \<Rightarrow> (thrown + Family) \<times> world" where
  "acceptFamilyInvite_try uid srv inviteId invite family w =
     (case updateDoc_families w (familyId invite)
             (\<lambda>d. d\<lparr> members := arrayUnion (members d) uid, updatedAt := srv \<rparr>) of
        Inl err \<Rightarrow> (Inl err, w)
      | Inr w1 \<Rightarrow>
     (case addFamilyToUser srv uid (familyId invite) w1 of
        (Inl err, w2) \<Rightarrow> (Inl err, w2)
      | (Inr _, w2) \<Rightarrow>
     (case updateDoc_invites w2 inviteId (\<lambda>d. d\<lparr> status := accepted \<rparr>) of
        Inl err \<Rightarrow> (Inl err, w2)
      | Inr w3 \<Rightarrow> (Inr (family\<lparr> members := members family @ [uid] \<rparr>), w3))))"

text \<open>\<open>now\<close> is the clock reading of \<^verbatim>\<open>new Date()\<close> in the expiry test.\<close>

definition acceptFamilyInvite ::
  "string option \<Rightarrow> int \<Rightarrow> int \<Rightarrow> string \<Rightarrow> world \<Rightarrow> (thrown + Family) \<times> world" where
  "acceptFamilyInvite auth now srv inviteId w =
     (case auth of
        None \<Rightarrow> (Inl (Error ''You must be logged in to accept an invite''), w)
      | Some uid \<Rightarrow>
     (case getInvite w inviteId of
        None \<Rightarrow> (Inl (Error ''Invite not found''), w)
      | Some invite \<Rightarrow>
          if status invite \<noteq> pending
          then (Inl (Error ''This invite has already been used or expired''), w)
          else if now > expiresAt invite
          then (Inl (Error ''This invite has expired''), w)
          else
     (case getFamilyById w (familyId invite) of
        None \<Rightarrow> (Inl (Error ''Family not found''), w)
      | Some family \<Rightarrow>
          if uid \<in> set (members family)
          then (Inl (Error ''You are already a member of this family''), w)
          else catch_rethrow ''Failed to join family''
                 (acceptFamilyInvite_try uid srv inviteId invite family w))))"

subsection \<open>Members\<close>

definition removeFamilyMember ::
  "string option \<Rightarrow> int \<Rightarrow> string \<Rightarrow> string \<Rightarrow> world \<Rightarrow> (thrown + unit) \<times> world" where
  "removeFamilyMember auth srv fid memberId w =
     (case auth of
        None \<Rightarrow> (Inl (Error ''You must be logged in''), w)
      | Some uid \<Rightarrow>
     (case getFamilyById w fid of
        None \<Rightarrow> (Inl (Error ''Family not found''), w)
      | Some family \<Rightarrow>
          if createdBy family \<noteq> uid
          then (Inl (Error ''Only the family admin can remove members''), w)
          else if memberId = createdBy family
          then (Inl (Error ''Cannot remove the family admin''), w)
          else
            let updatedMembers = filter (\<lambda>m. m \<noteq> memberId) (members family)
            in catch_rethrow ''Failed to remove member''
                 (case updateDoc_families w fid
                         (\<lambda>d. d\<lparr> members := updatedMembers, updatedAt := srv \<rparr>) of
                    Inl err \<Rightarrow> (Inl err, w)
                  | Inr w' \<Rightarrow> (Inr (), w'))))"

definition leaveFamily ::
  "string option \<Rightarrow> int \<Rightarrow> string \<Rightarrow> world \<Rightarrow> (thrown + unit) \<times> world" where
  "leaveFamily auth srv fid w =
     (case auth of
        None \<Rightarrow> (Inl (Error ''You must be logged in''), w)
      | Some uid \<Rightarrow>
     (case getFamilyById w fid of
        None \<Rightarrow> (Inl (Error ''Family not found''), w)
      | Some family \<Rightarrow>
          if createdBy family = uid
          then (Inl (Error ''Family admin cannot leave. Transfer ownership or delete the family.''), w)
          else
            let updatedMembers = filter (\<lambda>m. m \<noteq> uid) (members family)
            in catch_rethrow ''Failed to leave family''
                 (case updateDoc_families w fid
                         (\<lambda>d. d\<lparr> members := updatedMembers, updatedAt := srv \<rparr>) of
                    Inl err \<Rightarrow> (Inl err, w)
                  | Inr w' \<Rightarrow> (Inr (), w'))))"

section \<open>Example configurations and stores\<close>

text \<open>
  The production configuration of the test suite, a local one with an empty prefix, a
  preview deployment whose prefix was never set, and a process with no variable set.
\<close>

definition env_production :: env where
  "env_production =
     \<lparr> VITE_APP_ENV = Some ''production'', VITE_USE_EMULATORS = Some ''false'',
       VITE_FIRESTORE_ROOT_PATH = Some ''environments/production'',
       VITE_FIREBASE_API_KEY = Some ''key'', VITE_FIREBASE_AUTH_DOMAIN = None,
       VITE_FIREBASE_PROJECT_ID = Some ''proj'', VITE_FIREBASE_STORAGE_BUCKET = None,
       VITE_FIREBASE_MESSAGING_SENDER_ID = None, VITE_FIREBASE_APP_ID = None \<rparr>"

definition env_local :: env where
  "env_local =
     env_production\<lparr> VITE_APP_ENV := Some ''local'', VITE_USE_EMULATORS := Some ''true'',
       VITE_FIRESTORE_ROOT_PATH := Some '''' \<rparr>"

definition env_preview_no_root :: env where
  "env_preview_no_root =
     env_production\<lparr> VITE_APP_ENV := Some ''preview'', VITE_FIRESTORE_ROOT_PATH := None \<rparr>"

definition env_unset :: env where
  "env_unset =
     \<lparr> VITE_APP_ENV = None, VITE_USE_EMULATORS = None, VITE_FIRESTORE_ROOT_PATH = None,
       VITE_FIREBASE_API_KEY = None, VITE_FIREBASE_AUTH_DOMAIN = None,
       VITE_FIREBASE_PROJECT_ID = None, VITE_FIREBASE_STORAGE_BUCKET = None,
       VITE_FIREBASE_MESSAGING_SENDER_ID = None, VITE_FIREBASE_APP_ID = None \<rparr>"

text \<open>
  The store of the end-to-end scenario: user \<open>u1\<close> has created the family \<open>f1\<close> and the
  invite \<open>i1\<close> for it (expiring seven days after time 0); user \<open>u2\<close> has signed up and
  belongs to no family.
\<close>

definition user_doc :: "string \<Rightarrow> string list \<Rightarrow> FirestoreUser" where
  "user_doc mail fams =
     \<lparr> email = mail, displayName = mail, photoUrl = None, families = fams,
       user_createdAt = 0, user_updatedAt = 0 \<rparr>"

definition smith_family :: FirestoreFamily where
  "smith_family =
     \<lparr> name = ''Smith Family'', createdBy = ''u1'', members = [''u1''],
       createdAt = 0, updatedAt = 0 \<rparr>"

definition invite_i1 :: FirestoreInvite where
  "invite_i1 =
     \<lparr> familyId = ''f1'', familyName = ''Smith Family'', invitedBy = ''u1'',
       invitedEmail = None, invite_createdAt = 0, expiresAt = 604800000,
       status = pending \<rparr>"

definition world_smith :: world where
  "world_smith =
     \<lparr> users_coll = [''u1'' \<mapsto> user_doc ''a@example.org'' [''f1''],
                      ''u2'' \<mapsto> user_doc ''b@example.org'' []],
       families_coll = [''f1'' \<mapsto> smith_family],
       invites_coll = [''i1'' \<mapsto> invite_i1],
       writes = [] \<rparr>"

text \<open>The same store when \<open>u2\<close> is signed in but has no user document.\<close>

definition world_no_profile :: world where
  "world_no_profile =
     world_smith\<lparr> users_coll := [''u1'' \<mapsto> user_doc ''a@example.org'' [''f1'']] \<rparr>"

text \<open>The store once \<open>u2\<close> has accepted \<open>i1\<close>.\<close>

definition world_joined :: world where
  "world_joined =
     \<lparr> users_coll = [''u1'' \<mapsto> user_doc ''a@example.org'' [''f1''],
                      ''u2'' \<mapsto> user_doc ''b@example.org'' [''f1'']],
       families_coll = [''f1'' \<mapsto> smith_family\<lparr> members := [''u1'', ''u2''] \<rparr>],
       invites_coll = [''i1'' \<mapsto> invite_i1\<lparr> status := accepted \<rparr>],
       writes = [] \<rparr>"

text \<open>The store of the scenario with the family document gone.\<close>

definition world_orphan_invite :: world where
  "world_orphan_invite = world_smith\<lparr> families_coll := Map.empty \<rparr>"

text \<open>
  The offsets of a host in the Europe/London zone during 2026: one hour ahead of UTC from
  2026-03-29T01:00Z (time value 1774746000000) until 2026-10-25T01:00Z (1792890000000),
  none otherwise. A local time is read with the offset in force before a transition.
\<close>

definition tza_london_2026 :: "int \<Rightarrow> bool \<Rightarrow> int" where
  "tza_london_2026 t isUTC =
     (if isUTC
      then (if 1774746000000 \<le> t \<and> t < 1792890000000 then 3600000 else 0)
      else (if 1774746000000 + 3600000 \<le> t \<and> t < 1792890000000 + 3600000
            then 3600000 else 0))"

section \<open>Unfolding sets\<close>

lemmas env_defs = env_production_def env_local_def env_preview_no_root_def env_unset_def

lemmas store_defs = updateDoc_users_def updateDoc_families_def updateDoc_invites_def
  setDoc_invites_def arrayUnion_def catch_rethrow_def

lemmas example_defs = world_smith_def world_no_profile_def world_joined_def
  world_orphan_invite_def smith_family_def invite_i1_def user_doc_def

lemmas accept_defs = acceptFamilyInvite_def acceptFamilyInvite_try_def addFamilyToUser_def
  addFamilyToUser_try_def getInvite_def getFamilyById_def convertFirestoreFamily_def

lemmas member_defs = removeFamilyMember_def leaveFamily_def getFamilyById_def
  convertFirestoreFamily_def

lemmas date_defs = setDate_getDate_plus_def UTC_def LocalTime_def msPerDay_def
  Timestamp_fromDate_def

section \<open>Accepting an invite\<close>

text \<open>
  C1, as stated, fails: a signed-in user \<open>u2\<close> with no user document meets every listed
  precondition (the invite exists and is pending, the clock is not past the expiry, the
  family exists, \<open>u2\<close> is not a member), yet \<^verbatim>\<open>addFamilyToUser\<close> throws on its
  \<^verbatim>\<open>!userSnap.exists()\<close> guard after the family document was already updated. The
  operation ends in the error "Failed to join family" with one write made and the invite
  still pending.
\<close>

theorem acceptFamilyInvite_no_profile_counterexample:
  "invites_coll world_no_profile ''i1'' = Some invite_i1 \<and> status invite_i1 = pending \<and>
   1000 \<le> expiresAt invite_i1 \<and>
   families_coll world_no_profile (familyId invite_i1) = Some smith_family \<and>
   ''u2'' \<notin> set (members smith_family) \<and>
   acceptFamilyInvite (Some ''u2'') 1000 1000 ''i1'' world_no_profile =
     (Inl (Error ''Failed to join family''),
      world_no_profile
        \<lparr> families_coll :=
            [''f1'' \<mapsto> smith_family\<lparr> members := [''u1'', ''u2''], updatedAt := 1000 \<rparr>],
          writes := [updateDoc ''families'' ''f1''] \<rparr>)"
  by (simp add: accept_defs store_defs example_defs)

text \<open>
  C1 (amended): for an authenticated user \<open>u\<close> whose user document exists and whose call
  satisfies the preconditions (invite exists with status pending, \<open>now \<le> expiresAt\<close>,
  family exists, \<open>u\<close> not already a member), \<^verbatim>\<open>acceptFamilyInvite\<close> succeeds and its
  writes reach the store in the fixed order: the family's members gain \<open>u\<close>, then the
  user's families gain the family id (this write is skipped when the id is already
  listed), then the invite's status becomes accepted. Nothing else in the three
  collections changes, and the returned family is the one read, with \<open>u\<close> appended to
  its members.
\<close>

theorem acceptFamilyInvite_writes_in_order:
  assumes "invites_coll w iid = Some invt" and "status invt = pending"
    and "now \<le> expiresAt invt" and "families_coll w (familyId invt) = Some fam"
    and "u \<notin> set (members fam)" and "users_coll w u = Some usr"
  shows "\<exists>w'. acceptFamilyInvite (Some u) now srv iid w =
           (Inr ((convertFirestoreFamily (familyId invt) fam)
                    \<lparr> members := members fam @ [u] \<rparr>), w') \<and>
         writes w' = writes w @ [updateDoc ''families'' (familyId invt)] @
           (if familyId invt \<in> set (families usr) then [] else [updateDoc ''users'' u]) @
           [updateDoc ''invites'' iid] \<and>
         families_coll w' = (families_coll w)
           (familyId invt \<mapsto> fam\<lparr> members := members fam @ [u], updatedAt := srv \<rparr>) \<and>
         users_coll w' =
           (if familyId invt \<in> set (families usr) then users_coll w
            else (users_coll w)
              (u \<mapsto> usr\<lparr> families := families usr @ [familyId invt],
                          user_updatedAt := srv \<rparr>)) \<and>
         invites_coll w' = (invites_coll w)(iid \<mapsto> invt\<lparr> status := accepted \<rparr>)"
  using assms
  by (simp add: accept_defs store_defs)

theorem acceptFamilyInvite_writes_in_order_witness:
  "invites_coll world_smith ''i1'' = Some invite_i1 \<and> status invite_i1 = pending \<and>
   1000 \<le> expiresAt invite_i1 \<and>
   families_coll world_smith (familyId invite_i1) = Some smith_family \<and>
   ''u2'' \<notin> set (members smith_family) \<and>
   users_coll world_smith ''u2'' = Some (user_doc ''b@example.org'' []) \<and>
   fst (acceptFamilyInvite (Some ''u2'') 1000 2000 ''i1'' world_smith) =
     Inr \<lparr> name = ''Smith Family'', createdBy = ''u1'', members = [''u1'', ''u2''],
           createdAt = 0, updatedAt = 0, Family_id = ''f1'' \<rparr> \<and>
   writes (snd (acceptFamilyInvite (Some ''u2'') 1000 2000 ''i1'' world_smith)) =
     [updateDoc ''families'' ''f1'', updateDoc ''users'' ''u2'', updateDoc ''invites'' ''i1'']"
proof -
  have h1: "invites_coll world_smith ''i1'' = Some invite_i1"
    and h2: "status invite_i1 = pending"
    and h3: "1000 \<le> expiresAt invite_i1"
    and h4: "families_coll world_smith (familyId invite_i1) = Some smith_family"
    and h5: "''u2'' \<notin> set (members smith_family)"
    and h6: "users_coll world_smith ''u2'' = Some (user_doc ''b@example.org'' [])"
    by (simp_all add: example_defs)
  from acceptFamilyInvite_writes_in_order [OF h1 h2 h3 h4 h5 h6, of 2000]
  obtain w' where
    r: "acceptFamilyInvite (Some ''u2'') 1000 2000 ''i1'' world_smith =
          (Inr ((convertFirestoreFamily (familyId invite_i1) smith_family)
                   \<lparr> members := members smith_family @ [''u2''] \<rparr>), w')"
    and l: "writes w' = writes world_smith @ [updateDoc ''families'' (familyId invite_i1)] @
          (if familyId invite_i1 \<in> set (families (user_doc ''b@example.org'' [])) then []
           else [updateDoc ''users'' ''u2'']) @ [updateDoc ''invites'' ''i1'']"
    by blast
  from r have "fst (acceptFamilyInvite (Some ''u2'') 1000 2000 ''i1'' world_smith) =
     Inr \<lparr> name = ''Smith Family'', createdBy = ''u1'', members = [''u1'', ''u2''],
           createdAt = 0, updatedAt = 0, Family_id = ''f1'' \<rparr>"
    by (simp add: convertFirestoreFamily_def example_defs)
  moreover from r l
  have "writes (snd (acceptFamilyInvite (Some ''u2'') 1000 2000 ''i1'' world_smith)) =
     [updateDoc ''families'' ''f1'', updateDoc ''users'' ''u2'', updateDoc ''invites'' ''i1'']"
    by (simp add: example_defs)
  ultimately show ?thesis using h1 h2 h3 h4 h5 h6 by blast
qed

text \<open>
  A user who was removed from the family keeps the family id in the user document, so
  accepting a new invite writes the family and the invite only.
\<close>

lemma acceptFamilyInvite_rejoin_two_writes:
  "writes (snd (acceptFamilyInvite (Some ''u2'') 1000 2000 ''i1''
      (world_smith\<lparr> users_coll := (users_coll world_smith)
          (''u2'' \<mapsto> user_doc ''b@example.org'' [''f1'']) \<rparr>))) =
     [updateDoc ''families'' ''f1'', updateDoc ''invites'' ''i1'']"
  by (simp add: accept_defs store_defs example_defs)

text \<open>
  C2: each precondition failure of \<^verbatim>\<open>acceptFamilyInvite\<close> on its own (no signed-in user,
  no such invite, a status other than pending, a clock past the expiry, no such family,
  the caller already among the members) makes the call end in an \<^verbatim>\<open>Error\<close> with the
  store exactly as it was: no document is changed and no write is logged.
\<close>

theorem acceptFamilyInvite_precondition_failure:
  "(auth = None \<longrightarrow>
      (\<exists>msg. acceptFamilyInvite auth now srv iid w = (Inl (Error msg), w))) \<and>
   (invites_coll w iid = None \<longrightarrow>
      (\<exists>msg. acceptFamilyInvite auth now srv iid w = (Inl (Error msg), w))) \<and>
   (invites_coll w iid = Some invt \<and> status invt \<noteq> pending \<longrightarrow>
      (\<exists>msg. acceptFamilyInvite auth now srv iid w = (Inl (Error msg), w))) \<and>
   (invites_coll w iid = Some invt \<and> expiresAt invt < now \<longrightarrow>
      (\<exists>msg. acceptFamilyInvite auth now srv iid w = (Inl (Error msg), w))) \<and>
   (invites_coll w iid = Some invt \<and> families_coll w (familyId invt) = None \<longrightarrow>
      (\<exists>msg. acceptFamilyInvite auth now srv iid w = (Inl (Error msg), w))) \<and>
   (invites_coll w iid = Some invt \<and> families_coll w (familyId invt) = Some fam \<and>
    auth = Some u \<and> u \<in> set (members fam) \<longrightarrow>
      (\<exists>msg. acceptFamilyInvite auth now srv iid w = (Inl (Error msg), w)))"
  by (cases auth) (simp_all add: acceptFamilyInvite_def getInvite_def getFamilyById_def
      convertFirestoreFamily_def)

theorem acceptFamilyInvite_precondition_failure_witness:
  "acceptFamilyInvite None 1000 2000 ''i1'' world_smith =
     (Inl (Error ''You must be logged in to accept an invite''), world_smith) \<and>
   invites_coll world_smith ''i9'' = None \<and>
   acceptFamilyInvite (Some ''u2'') 1000 2000 ''i9'' world_smith =
     (Inl (Error ''Invite not found''), world_smith) \<and>
   invites_coll world_joined ''i1'' = Some (invite_i1\<lparr> status := accepted \<rparr>) \<and>
   status (invite_i1\<lparr> status := accepted \<rparr>) \<noteq> pending \<and>
   acceptFamilyInvite (Some ''u2'') 1000 2000 ''i1'' world_joined =
     (Inl (Error ''This invite has already been used or expired''), world_joined) \<and>
   invites_coll world_smith ''i1'' = Some invite_i1 \<and>
   expiresAt invite_i1 < 604801000 \<and>
   acceptFamilyInvite (Some ''u2'') 604801000 2000 ''i1'' world_smith =
     (Inl (Error ''This invite has expired''), world_smith) \<and>
   invites_coll world_orphan_invite ''i1'' = Some invite_i1 \<and>
   families_coll world_orphan_invite (familyId invite_i1) = None \<and>
   acceptFamilyInvite (Some ''u2'') 1000 2000 ''i1'' world_orphan_invite =
     (Inl (Error ''Family not found''), world_orphan_invite) \<and>
   families_coll world_smith (familyId invite_i1) = Some smith_family \<and>
   ''u1'' \<in> set (members smith_family) \<and>
   acceptFamilyInvite (Some ''u1'') 1000 2000 ''i1'' world_smith =
     (Inl (Error ''You are already a member of this family''), world_smith)"
proof -
  note t = acceptFamilyInvite_precondition_failure
  have c1: "acceptFamilyInvite None 1000 2000 ''i1'' world_smith =
     (Inl (Error ''You must be logged in to accept an invite''), world_smith)"
    using t [where auth = None and now = 1000 and srv = 2000 and iid = "''i1''"
        and w = world_smith]
    by (simp add: acceptFamilyInvite_def)
  have c2: "invites_coll world_smith ''i9'' = None \<and>
     acceptFamilyInvite (Some ''u2'') 1000 2000 ''i9'' world_smith =
       (Inl (Error ''Invite not found''), world_smith)"
    using t [where auth = "Some ''u2''" and now = 1000 and srv = 2000 and iid = "''i9''"
        and w = world_smith]
    by (simp add: acceptFamilyInvite_def getInvite_def example_defs)
  have c3: "invites_coll world_joined ''i1'' = Some (invite_i1\<lparr> status := accepted \<rparr>) \<and>
     status (invite_i1\<lparr> status := accepted \<rparr>) \<noteq> pending \<and>
     acceptFamilyInvite (Some ''u2'') 1000 2000 ''i1'' world_joined =
       (Inl (Error ''This invite has already been used or expired''), world_joined)"
    using t [where auth = "Some ''u2''" and now = 1000 and srv = 2000 and iid = "''i1''"
        and w = world_joined and invt = "invite_i1\<lparr> status := accepted \<rparr>"]
    by (simp add: acceptFamilyInvite_def getInvite_def example_defs)
  have c4: "invites_coll world_smith ''i1'' = Some invite_i1 \<and>
     expiresAt invite_i1 < 604801000 \<and>
     acceptFamilyInvite (Some ''u2'') 604801000 2000 ''i1'' world_smith =
       (Inl (Error ''This invite has expired''), world_smith)"
    using t [where auth = "Some ''u2''" and now = 604801000 and srv = 2000
        and iid = "''i1''" and w = world_smith and invt = invite_i1]
    by (simp add: acceptFamilyInvite_def getInvite_def example_defs)
  have c5: "invites_coll world_orphan_invite ''i1'' = Some invite_i1 \<and>
     families_coll world_orphan_invite (familyId invite_i1) = None \<and>
     acceptFamilyInvite (Some ''u2'') 1000 2000 ''i1'' world_orphan_invite =
       (Inl (Error ''Family not found''), world_orphan_invite)"
    using t [where auth = "Some ''u2''" and now = 1000 and srv = 2000 and iid = "''i1''"
        and w = world_orphan_invite and invt = invite_i1]
    by (simp add: acceptFamilyInvite_def getInvite_def getFamilyById_def example_defs)
  have c6: "families_coll world_smith (familyId invite_i1) = Some smith_family \<and>
     ''u1'' \<in> set (members smith_family) \<and>
     acceptFamilyInvite (Some ''u1'') 1000 2000 ''i1'' world_smith =
       (Inl (Error ''You are already a member of this family''), world_smith)"
    using t [where auth = "Some ''u1''" and now = 1000 and srv = 2000 and iid = "''i1''"
        and w = world_smith and invt = invite_i1 and fam = smith_family and u = "''u1''"]
    by (simp add: acceptFamilyInvite_def getInvite_def getFamilyById_def
        convertFirestoreFamily_def example_defs)
  from c1 c2 c3 c4 c5 c6 show ?thesis by blast
qed

text \<open>
  C3: for a signed-in caller, an existing invite whose status is accepted is refused with
  the already-used message; a pending invite whose expiry lies before the clock reading
  is refused with the expiry message, which is neither the already-used message nor one
  of the not-signed-in or not-found messages; and a pending, unexpired invite to a family
  the caller already belongs to is refused with the already-a-member message, which is
  neither of the other two. Each refusal leaves the store as it was.
\<close>

theorem acceptFamilyInvite_conflict_messages:
  "(invites_coll w iid = Some invt \<and> status invt = accepted \<longrightarrow>
      acceptFamilyInvite (Some u) now srv iid w =
        (Inl (Error ''This invite has already been used or expired''), w)) \<and>
   (invites_coll w iid = Some invt \<and> status invt = pending \<and> expiresAt invt < now \<longrightarrow>
      acceptFamilyInvite (Some u) now srv iid w =
        (Inl (Error ''This invite has expired''), w) \<and>
      fst (acceptFamilyInvite (Some u) now srv iid w) \<notin>
        {Inl (Error ''This invite has already been used or expired''),
         Inl (Error ''You must be logged in to accept an invite''),
         Inl (Error ''Invite not found''), Inl (Error ''Family not found'')}) \<and>
   (invites_coll w iid = Some invt \<and> status invt = pending \<and> now \<le> expiresAt invt \<and>
    families_coll w (familyId invt) = Some fam \<and> u \<in> set (members fam) \<longrightarrow>
      acceptFamilyInvite (Some u) now srv iid w =
        (Inl (Error ''You are already a member of this family''), w) \<and>
      fst (acceptFamilyInvite (Some u) now srv iid w) \<notin>
        {Inl (Error ''This invite has already been used or expired''),
         Inl (Error ''This invite has expired'')})"
  by (simp add: acceptFamilyInvite_def getInvite_def getFamilyById_def
      convertFirestoreFamily_def)

theorem acceptFamilyInvite_conflict_messages_witness:
  "invites_coll world_joined ''i1'' = Some (invite_i1\<lparr> status := accepted \<rparr>) \<and>
   status (invite_i1\<lparr> status := accepted \<rparr>) = accepted \<and>
   acceptFamilyInvite (Some ''u2'') 1000 2000 ''i1'' world_joined =
     (Inl (Error ''This invite has already been used or expired''), world_joined) \<and>
   invites_coll world_smith ''i1'' = Some invite_i1 \<and> status invite_i1 = pending \<and>
   expiresAt invite_i1 < 604801000 \<and>
   acceptFamilyInvite (Some ''u2'') 604801000 2000 ''i1'' world_smith =
     (Inl (Error ''This invite has expired''), world_smith) \<and>
   1000 \<le> expiresAt invite_i1 \<and>
   families_coll world_smith (familyId invite_i1) = Some smith_family \<and>
   ''u1'' \<in> set (members smith_family) \<and>
   acceptFamilyInvite (Some ''u1'') 1000 2000 ''i1'' world_smith =
     (Inl (Error ''You are already a member of this family''), world_smith)"
proof -
  note t = acceptFamilyInvite_conflict_messages
  have h1: "invites_coll world_joined ''i1'' = Some (invite_i1\<lparr> status := accepted \<rparr>) \<and>
      status (invite_i1\<lparr> status := accepted \<rparr>) = accepted"
    by (simp add: example_defs)
  have h2: "invites_coll world_smith ''i1'' = Some invite_i1 \<and> status invite_i1 = pending \<and>
      expiresAt invite_i1 < 604801000"
    by (simp add: example_defs)
  have h3: "invites_coll world_smith ''i1'' = Some invite_i1 \<and> status invite_i1 = pending \<and>
      1000 \<le> expiresAt invite_i1 \<and>
      families_coll world_smith (familyId invite_i1) = Some smith_family \<and>
      ''u1'' \<in> set (members smith_family)"
    by (simp add: example_defs)
  have c1: "acceptFamilyInvite (Some ''u2'') 1000 2000 ''i1'' world_joined =
     (Inl (Error ''This invite has already been used or expired''), world_joined)"
    using h1 t [where w = world_joined and iid = "''i1''" and u = "''u2''" and now = 1000
        and srv = 2000 and invt = "invite_i1\<lparr> status := accepted \<rparr>"]
    by blast
  have c2: "acceptFamilyInvite (Some ''u2'') 604801000 2000 ''i1'' world_smith =
     (Inl (Error ''This invite has expired''), world_smith)"
    using h2 t [where w = world_smith and iid = "''i1''" and u = "''u2''"
        and now = 604801000 and srv = 2000 and invt = invite_i1]
    by blast
  have c3: "acceptFamilyInvite (Some ''u1'') 1000 2000 ''i1'' world_smith =
     (Inl (Error ''You are already a member of this family''), world_smith)"
    using h3 t [where w = world_smith and iid = "''i1''" and u = "''u1''" and now = 1000
        and srv = 2000 and invt = invite_i1 and fam = smith_family]
    by blast
  from h1 h2 h3 c1 c2 c3 show ?thesis by blast
qed

section \<open>Creating an invite\<close>

text \<open>
  C4, as stated, fails: the expiry is computed with \<^verbatim>\<open>setDate(getDate() + 7)\<close>, which moves
  the date seven days on the local calendar. On a host in the Europe/London zone an
  invite created on 2026-03-25 at 12:00 GMT (time value 1774440000000) is stored with the
  expiry 2026-04-01 at 12:00 BST, time value 1775041200000: seven days less one hour
  after its creation. It is stored with status pending.
\<close>

theorem createFamilyInvite_dst_counterexample:
  "map_option expiresAt
     (invites_coll
        (snd (createFamilyInvite (Some ''u1'') tza_london_2026
                1774440000000 1774440000000 1774440000000 ''i2'' ''f1'' world_smith))
        ''i2'') = Some 1775041200000 \<and>
   map_option status
     (invites_coll
        (snd (createFamilyInvite (Some ''u1'') tza_london_2026
                1774440000000 1774440000000 1774440000000 ''i2'' ''f1'' world_smith))
        ''i2'') = Some pending \<and>
   (1775041200000 :: int) \<noteq> 1774440000000 + 7 * msPerDay"
  by (simp add: createFamilyInvite_def getFamilyById_def convertFirestoreFamily_def
      store_defs example_defs date_defs tza_london_2026_def Let_def)

text \<open>
  C4 (amended): when a signed-in member of the family calls \<^verbatim>\<open>createFamilyInvite\<close> at
  client clock time \<open>now\<close>, and the expiry is one that a Firestore \<^verbatim>\<open>Timestamp\<close> holds (its
  seconds from year 1 up to the end of year 9999), the call succeeds, and the invite is
  persisted under the new id with status pending and with the expiry
  \<open>UTC (LocalTime now + 7 * msPerDay)\<close>: the local wall-clock time of \<open>now\<close>, moved seven
  days forward on the local calendar and converted back to UTC. The returned invite
  carries the same expiry and status. That expiry is \<open>now + 7 * msPerDay\<close> plus the
  host's offset at \<open>now\<close>, \<open>tza now True\<close>, minus the offset by which the host converts
  the local expiry time back to UTC, \<open>tza (LocalTime now + 7 * msPerDay) False\<close>; so it is
  \<open>now + 7 * msPerDay\<close> exactly when these two offsets are equal.
\<close>

theorem createFamilyInvite_expiry:
  assumes "families_coll w fid = Some fam" and "u \<in> set (members fam)"
    and "- 62135596800 \<le> UTC tza (LocalTime tza now + 7 * msPerDay) div 1000"
    and "UTC tza (LocalTime tza now + 7 * msPerDay) div 1000 < 253402300800"
  shows "\<exists>invite w'.
           createFamilyInvite (Some u) tza now now' srv newId fid w = (Inr invite, w') \<and>
           invites_coll w' newId =
             Some \<lparr> familyId = fid, familyName = name fam, invitedBy = u,
                    invitedEmail = None, invite_createdAt = srv,
                    expiresAt = UTC tza (LocalTime tza now + 7 * msPerDay),
                    status = pending \<rparr> \<and>
           writes w' = writes w @ [setDoc ''invites'' newId] \<and>
           FamilyInvite_id invite = newId \<and> status invite = pending \<and>
           expiresAt invite = UTC tza (LocalTime tza now + 7 * msPerDay) \<and>
           UTC tza (LocalTime tza now + 7 * msPerDay) =
             now + 7 * msPerDay + tza now True - tza (LocalTime tza now + 7 * msPerDay) False \<and>
           (UTC tza (LocalTime tza now + 7 * msPerDay) = now + 7 * msPerDay) =
             (tza (LocalTime tza now + 7 * msPerDay) False = tza now True)"
proof -
  let ?e = "UTC tza (LocalTime tza now + 7 * msPerDay)"
  have stamp: "Timestamp_fromDate ?e = Inr ?e"
    using assms(3,4) by (simp add: Timestamp_fromDate_def)
  have fam: "getFamilyById w fid = Some (convertFirestoreFamily fid fam)"
    using assms(1) by (simp add: getFamilyById_def)
  have run: "createFamilyInvite (Some u) tza now now' srv newId fid w =
      (Inr \<lparr> familyId = fid, familyName = name fam, invitedBy = u,
              invitedEmail = None, invite_createdAt = now',
              expiresAt = ?e, status = pending, FamilyInvite_id = newId \<rparr>,
       setDoc_invites w newId
         \<lparr> familyId = fid, familyName = name fam, invitedBy = u,
           invitedEmail = None, invite_createdAt = srv,
           expiresAt = ?e, status = pending \<rparr>)"
    using assms(2) stamp fam
    by (simp add: createFamilyInvite_def setDate_getDate_plus_def convertFirestoreFamily_def
        Let_def)
  have diff: "?e = now + 7 * msPerDay + tza now True -
      tza (LocalTime tza now + 7 * msPerDay) False"
    by (simp add: UTC_def LocalTime_def)
  have same: "(?e = now + 7 * msPerDay) =
      (tza (LocalTime tza now + 7 * msPerDay) False = tza now True)"
    by (auto simp add: UTC_def LocalTime_def)
  from run diff same show ?thesis
    by (simp add: setDoc_invites_def)
qed

text \<open>
  The witness takes the London host at two clock readings. At 2026-01-01T00:00Z no
  transition lies within the seven days. At 2026-03-22T01:30Z (time value 1774143000000)
  the local expiry time, 29 March 01:30, is skipped by the clocks going forward; it is
  read with the offset before the transition, which is the offset at \<open>now\<close>, and the
  expiry is again \<open>now\<close> plus seven days of 24 hours.
\<close>

theorem createFamilyInvite_expiry_witness:
  "families_coll world_smith ''f1'' = Some smith_family \<and>
   ''u1'' \<in> set (members smith_family) \<and>
   invites_coll
     (snd (createFamilyInvite (Some ''u1'') tza_london_2026
             1767225600000 1767225600001 1767225600002 ''i2'' ''f1'' world_smith)) ''i2'' =
     Some \<lparr> familyId = ''f1'', familyName = ''Smith Family'', invitedBy = ''u1'',
            invitedEmail = None, invite_createdAt = 1767225600002,
            expiresAt = 1767225600000 + 7 * 86400000, status = pending \<rparr> \<and>
   invites_coll
     (snd (createFamilyInvite (Some ''u1'') tza_london_2026
             1774143000000 1774143000001 1774143000002 ''i3'' ''f1'' world_smith)) ''i3'' =
     Some \<lparr> familyId = ''f1'', familyName = ''Smith Family'', invitedBy = ''u1'',
            invitedEmail = None, invite_createdAt = 1774143000002,
            expiresAt = 1774143000000 + 7 * 86400000, status = pending \<rparr>"
proof -
  have h1: "families_coll world_smith ''f1'' = Some smith_family"
    and h2: "''u1'' \<in> set (members smith_family)"
    by (simp_all add: example_defs)
  have e1: "UTC tza_london_2026 (LocalTime tza_london_2026 1767225600000 + 7 * msPerDay) =
          1767225600000 + 7 * 86400000"
    by (simp add: UTC_def LocalTime_def msPerDay_def tza_london_2026_def)
  have e2: "UTC tza_london_2026 (LocalTime tza_london_2026 1774143000000 + 7 * msPerDay) =
          1774143000000 + 7 * 86400000"
    by (simp add: UTC_def LocalTime_def msPerDay_def tza_london_2026_def)
  have r1: "- 62135596800 \<le>
        UTC tza_london_2026 (LocalTime tza_london_2026 1767225600000 + 7 * msPerDay) div 1000"
    and r2: "UTC tza_london_2026 (LocalTime tza_london_2026 1767225600000 + 7 * msPerDay)
        div 1000 < 253402300800"
    by (simp_all add: e1)
  have r3: "- 62135596800 \<le>
        UTC tza_london_2026 (LocalTime tza_london_2026 1774143000000 + 7 * msPerDay) div 1000"
    and r4: "UTC tza_london_2026 (LocalTime tza_london_2026 1774143000000 + 7 * msPerDay)
        div 1000 < 253402300800"
    by (simp_all add: e2)
  from createFamilyInvite_expiry [OF h1 h2 r1 r2, of 1767225600001 1767225600002 "''i2''"]
  obtain invite w' where
    a: "createFamilyInvite (Some ''u1'') tza_london_2026
          1767225600000 1767225600001 1767225600002 ''i2'' ''f1'' world_smith = (Inr invite, w')"
    and b: "invites_coll w' ''i2'' =
             Some \<lparr> familyId = ''f1'', familyName = name smith_family, invitedBy = ''u1'',
                    invitedEmail = None, invite_createdAt = 1767225600002,
                    expiresAt = UTC tza_london_2026
                      (LocalTime tza_london_2026 1767225600000 + 7 * msPerDay),
                    status = pending \<rparr>"
    by blast
  from createFamilyInvite_expiry [OF h1 h2 r3 r4, of 1774143000001 1774143000002 "''i3''"]
  obtain invite2 w2 where
    c: "createFamilyInvite (Some ''u1'') tza_london_2026
          1774143000000 1774143000001 1774143000002 ''i3'' ''f1'' world_smith = (Inr invite2, w2)"
    and d: "invites_coll w2 ''i3'' =
             Some \<lparr> familyId = ''f1'', familyName = name smith_family, invitedBy = ''u1'',
                    invitedEmail = None, invite_createdAt = 1774143000002,
                    expiresAt = UTC tza_london_2026
                      (LocalTime tza_london_2026 1774143000000 + 7 * msPerDay),
                    status = pending \<rparr>"
    by blast
  from a b e1 have first: "invites_coll
     (snd (createFamilyInvite (Some ''u1'') tza_london_2026
             1767225600000 1767225600001 1767225600002 ''i2'' ''f1'' world_smith)) ''i2'' =
     Some \<lparr> familyId = ''f1'', familyName = ''Smith Family'', invitedBy = ''u1'',
            invitedEmail = None, invite_createdAt = 1767225600002,
            expiresAt = 1767225600000 + 7 * 86400000, status = pending \<rparr>"
    by (simp add: smith_family_def)
  from c d e2 have second: "invites_coll
     (snd (createFamilyInvite (Some ''u1'') tza_london_2026
             1774143000000 1774143000001 1774143000002 ''i3'' ''f1'' world_smith)) ''i3'' =
     Some \<lparr> familyId = ''f1'', familyName = ''Smith Family'', invitedBy = ''u1'',
            invitedEmail = None, invite_createdAt = 1774143000002,
            expiresAt = 1774143000000 + 7 * 86400000, status = pending \<rparr>"
    by (simp add: smith_family_def)
  from h1 h2 first second show ?thesis by blast
qed

text \<open>
  In that second case the host's offsets at the two instants differ: none at \<open>now\<close>, one
  hour at the expiry. What decides is the offset given to the local expiry time.
\<close>

lemma tza_london_2026_gap_offsets:
  "tza_london_2026 1774143000000 True = 0 \<and>
   tza_london_2026 (1774143000000 + 7 * msPerDay) True = 3600000 \<and>
   tza_london_2026 (LocalTime tza_london_2026 1774143000000 + 7 * msPerDay) False = 0"
  by (simp add: tza_london_2026_def LocalTime_def msPerDay_def)

text \<open>
  Past the range of a \<^verbatim>\<open>Timestamp\<close> no invite is created: at 9999-12-28T12:26:40Z (time
  value 253402000000000) the expiry falls in year 10000, \<^verbatim>\<open>Timestamp.fromDate\<close> throws,
  and the store is not written.
\<close>

lemma createFamilyInvite_expiry_out_of_range:
  "createFamilyInvite (Some ''u1'') tza_london_2026
     253402000000000 253402000000000 253402000000000 ''i2'' ''f1'' world_smith =
     (Inl (FirestoreError ''invalid-argument''), world_smith)"
  by (simp add: createFamilyInvite_def getFamilyById_def convertFirestoreFamily_def
      example_defs date_defs tza_london_2026_def Let_def)

section \<open>Paths\<close>

text \<open>
  C5: for a non-empty collection name \<open>c\<close> and a non-empty document id \<open>d\<close>,
  \<^verbatim>\<open>getDocumentPath(c, d)\<close> is \<^verbatim>\<open>getCollectionPath(c)\<close>, a slash, and \<open>d\<close>; and
  \<^verbatim>\<open>getCollectionPath(c)\<close> is \<open>c\<close> itself when the configured root prefix is empty and
  the prefix, a slash, and \<open>c\<close> otherwise.
\<close>

theorem getDocumentPath_composes:
  assumes "c \<noteq> []" and "d \<noteq> []"
  shows "getDocumentPath e c d = getCollectionPath e c @ ''/'' @ d \<and>
         getCollectionPath e c =
           (if getFirestoreRootPath e = [] then c else getFirestoreRootPath e @ ''/'' @ c)"
  by (simp add: getDocumentPath_def getCollectionPath_def)

theorem getDocumentPath_composes_witness:
  "''users'' \<noteq> [] \<and> ''u1'' \<noteq> [] \<and>
   getDocumentPath env_production ''users'' ''u1'' = ''environments/production/users/u1'' \<and>
   getCollectionPath env_local ''users'' = ''users''"
proof -
  have c: "''users'' \<noteq> []" and d: "''u1'' \<noteq> []" by simp_all
  have root: "getFirestoreRootPath env_production = ''environments/production''"
    by (simp add: getFirestoreRootPath_def env_production_def or_empty_def)
  have rootl: "getFirestoreRootPath env_local = []"
    by (simp add: getFirestoreRootPath_def env_defs or_empty_def)
  from getDocumentPath_composes [OF c d, of env_production] root
  have "getDocumentPath env_production ''users'' ''u1'' = ''environments/production/users/u1''"
    by simp
  moreover from getDocumentPath_composes [OF c d, of env_local] rootl
  have "getCollectionPath env_local ''users'' = ''users''" by simp
  ultimately show ?thesis by simp
qed

text \<open>
  C9, as stated, fails: \<^verbatim>\<open>getDocumentPath\<close> has no check of the document id. With the
  empty id in the local configuration it returns the string \<^verbatim>\<open>users/\<close>.
\<close>

theorem getDocumentPath_empty_id_counterexample:
  "getDocumentPath env_local ''users'' '''' = ''users/''"
  by (simp add: getDocumentPath_def getCollectionPath_def getFirestoreRootPath_def
      env_defs or_empty_def)

text \<open>
  C9 (amended): for every collection name \<open>c\<close>, \<^verbatim>\<open>getDocumentPath(c, "")\<close> returns the
  collection path followed by a slash; no error is raised for the empty document id.
\<close>

theorem getDocumentPath_empty_id:
  "getDocumentPath e c [] = getCollectionPath e c @ ''/''"
  by (simp add: getDocumentPath_def)

section \<open>Validating the configuration\<close>

text \<open>
  C6, as stated, fails: in a preview deployment with the API key and the project id set
  and no root prefix, \<^verbatim>\<open>validateEnvironmentConfig\<close> logs its warning and returns
  normally.
\<close>

theorem validateEnvironmentConfig_root_unset_counterexample:
  "validateEnvironmentConfig env_preview_no_root = ([warn_root_path_not_set], Inr ())"
  by (simp add: validateEnvironmentConfig_def getEnvironmentConfig_def
      getAppEnvironment_def useEmulators_env_def getFirestoreRootPath_def or_empty_def
      newline_def env_defs)

text \<open>
  C6 (amended): \<^verbatim>\<open>validateEnvironmentConfig\<close> throws exactly when the project id is
  missing or the API key is missing while emulators are not in use. The one error it
  throws lists every missing item, one per line under the heading, in the order API key,
  project id. A root prefix that is unset outside local mode only makes it log a
  warning and has no part in whether it throws.
\<close>

theorem validateEnvironmentConfig_aggregates:
  fixes e :: env
  defines "noKey \<equiv> or_empty (VITE_FIREBASE_API_KEY e) = [] \<and>
                     VITE_USE_EMULATORS e \<noteq> Some ''true''"
    and "noProject \<equiv> or_empty (VITE_FIREBASE_PROJECT_ID e) = []"
  shows "(\<not> noKey \<and> \<not> noProject \<longrightarrow> snd (validateEnvironmentConfig e) = Inr ()) \<and>
     (noKey \<and> \<not> noProject \<longrightarrow> snd (validateEnvironmentConfig e) =
        Inl (''Environment configuration errors:'' @ newline @
             ''  - VITE_FIREBASE_API_KEY is required'')) \<and>
     (\<not> noKey \<and> noProject \<longrightarrow> snd (validateEnvironmentConfig e) =
        Inl (''Environment configuration errors:'' @ newline @
             ''  - VITE_FIREBASE_PROJECT_ID is required'')) \<and>
     (noKey \<and> noProject \<longrightarrow> snd (validateEnvironmentConfig e) =
        Inl (''Environment configuration errors:'' @ newline @
             ''  - VITE_FIREBASE_API_KEY is required'' @ newline @
             ''  - VITE_FIREBASE_PROJECT_ID is required'')) \<and>
     fst (validateEnvironmentConfig e) =
       (if getAppEnvironment e \<noteq> local \<and> getFirestoreRootPath e = []
        then [warn_root_path_not_set] else [])"
  unfolding noKey_def noProject_def
  by (simp add: validateEnvironmentConfig_def getEnvironmentConfig_def
      useEmulators_env_def Let_def)

theorem validateEnvironmentConfig_aggregates_witness:
  "snd (validateEnvironmentConfig env_production) = Inr () \<and>
   snd (validateEnvironmentConfig (env_production\<lparr> VITE_FIREBASE_API_KEY := None \<rparr>)) =
     Inl (''Environment configuration errors:'' @ newline @
          ''  - VITE_FIREBASE_API_KEY is required'') \<and>
   snd (validateEnvironmentConfig (env_production\<lparr> VITE_FIREBASE_PROJECT_ID := Some '''' \<rparr>)) =
     Inl (''Environment configuration errors:'' @ newline @
          ''  - VITE_FIREBASE_PROJECT_ID is required'') \<and>
   snd (validateEnvironmentConfig env_unset) =
     Inl (''Environment configuration errors:'' @ newline @
          ''  - VITE_FIREBASE_API_KEY is required'' @ newline @
          ''  - VITE_FIREBASE_PROJECT_ID is required'') \<and>
   fst (validateEnvironmentConfig env_preview_no_root) = [warn_root_path_not_set]"
proof -
  note t = validateEnvironmentConfig_aggregates
  have c1: "snd (validateEnvironmentConfig env_production) = Inr ()"
    using t [of env_production] by (simp add: env_defs or_empty_def)
  have c2: "snd (validateEnvironmentConfig (env_production\<lparr> VITE_FIREBASE_API_KEY := None \<rparr>)) =
     Inl (''Environment configuration errors:'' @ newline @
          ''  - VITE_FIREBASE_API_KEY is required'')"
    using t [of "env_production\<lparr> VITE_FIREBASE_API_KEY := None \<rparr>"]
    by (simp add: env_defs or_empty_def)
  have c3: "snd (validateEnvironmentConfig
        (env_production\<lparr> VITE_FIREBASE_PROJECT_ID := Some '''' \<rparr>)) =
     Inl (''Environment configuration errors:'' @ newline @
          ''  - VITE_FIREBASE_PROJECT_ID is required'')"
    using t [of "env_production\<lparr> VITE_FIREBASE_PROJECT_ID := Some '''' \<rparr>"]
    by (simp add: env_defs or_empty_def)
  have c4: "snd (validateEnvironmentConfig env_unset) =
     Inl (''Environment configuration errors:'' @ newline @
          ''  - VITE_FIREBASE_API_KEY is required'' @ newline @
          ''  - VITE_FIREBASE_PROJECT_ID is required'')"
    using t [of env_unset] by (simp add: env_defs or_empty_def)
  have c5: "fst (validateEnvironmentConfig env_preview_no_root) = [warn_root_path_not_set]"
    using t [of env_preview_no_root]
    by (simp add: env_defs or_empty_def getAppEnvironment_def getFirestoreRootPath_def)
  from c1 c2 c3 c4 c5 show ?thesis by blast
qed

section \<open>Members and the creator\<close>

text \<open>
  C7: for a family that exists, \<^verbatim>\<open>removeFamilyMember\<close> with the creator as the target
  fails for every caller with one of the three refusals of the operation (not signed in,
  not the family admin, cannot remove the admin) and changes nothing, and \<^verbatim>\<open>leaveFamily\<close>
  called by the creator fails and changes nothing. So whatever remove or leave operation
  runs, by any caller on any family and target, a family whose creator is among its
  members still has the same creator among its members afterwards.
\<close>

theorem creator_stays_member:
  assumes "families_coll w fid = Some fam"
  shows "fst (removeFamilyMember auth srv fid (createdBy fam) w) \<in>
           {Inl (Error ''You must be logged in''),
            Inl (Error ''Only the family admin can remove members''),
            Inl (Error ''Cannot remove the family admin'')} \<and>
         snd (removeFamilyMember auth srv fid (createdBy fam) w) = w \<and>
         leaveFamily (Some (createdBy fam)) srv fid w =
           (Inl (Error ''Family admin cannot leave. Transfer ownership or delete the family.''),
            w) \<and>
         (createdBy fam \<in> set (members fam) \<longrightarrow>
            (\<exists>fam'. families_coll (snd (removeFamilyMember auth srv fid' m w)) fid = Some fam' \<and>
               createdBy fam' = createdBy fam \<and> createdBy fam \<in> set (members fam')) \<and>
            (\<exists>fam'. families_coll (snd (leaveFamily auth srv fid' w)) fid = Some fam' \<and>
               createdBy fam' = createdBy fam \<and> createdBy fam \<in> set (members fam')))"
proof -
  have rm: "fst (removeFamilyMember auth srv fid (createdBy fam) w) \<in>
           {Inl (Error ''You must be logged in''),
            Inl (Error ''Only the family admin can remove members''),
            Inl (Error ''Cannot remove the family admin'')} \<and>
         snd (removeFamilyMember auth srv fid (createdBy fam) w) = w"
    using assms by (cases auth) (simp_all add: member_defs)
  have lv: "leaveFamily (Some (createdBy fam)) srv fid w =
           (Inl (Error ''Family admin cannot leave. Transfer ownership or delete the family.''),
            w)"
    using assms by (simp add: member_defs)
  have keep_rm: "\<exists>fam'. families_coll (snd (removeFamilyMember auth srv fid' m w)) fid = Some fam' \<and>
               createdBy fam' = createdBy fam \<and> createdBy fam \<in> set (members fam')"
    if "createdBy fam \<in> set (members fam)"
    using assms that
    by (cases auth; cases "families_coll w fid'")
       (auto simp add: member_defs store_defs)
  have keep_lv: "\<exists>fam'. families_coll (snd (leaveFamily auth srv fid' w)) fid = Some fam' \<and>
               createdBy fam' = createdBy fam \<and> createdBy fam \<in> set (members fam')"
    if "createdBy fam \<in> set (members fam)"
    using assms that
    by (cases auth; cases "families_coll w fid'")
       (auto simp add: member_defs store_defs)
  from rm lv keep_rm keep_lv show ?thesis by blast
qed

theorem creator_stays_member_witness:
  "families_coll world_joined ''f1'' = Some (smith_family\<lparr> members := [''u1'', ''u2''] \<rparr>) \<and>
   removeFamilyMember (Some ''u2'') 5 ''f1'' ''u1'' world_joined =
     (Inl (Error ''Only the family admin can remove members''), world_joined) \<and>
   removeFamilyMember (Some ''u1'') 5 ''f1'' ''u1'' world_joined =
     (Inl (Error ''Cannot remove the family admin''), world_joined) \<and>
   leaveFamily (Some ''u1'') 5 ''f1'' world_joined =
     (Inl (Error ''Family admin cannot leave. Transfer ownership or delete the family.''),
      world_joined) \<and>
   ''u1'' \<in> set (members (smith_family\<lparr> members := [''u1'', ''u2''] \<rparr>)) \<and>
   families_coll (snd (removeFamilyMember (Some ''u1'') 5 ''f1'' ''u2'' world_joined)) ''f1'' =
     Some (smith_family\<lparr> members := [''u1''], updatedAt := 5 \<rparr>) \<and>
   families_coll (snd (leaveFamily (Some ''u2'') 5 ''f1'' world_joined)) ''f1'' =
     Some (smith_family\<lparr> members := [''u1''], updatedAt := 5 \<rparr>)"
proof -
  have h: "families_coll world_joined ''f1'' =
      Some (smith_family\<lparr> members := [''u1'', ''u2''] \<rparr>)"
    by (simp add: example_defs)
  have cr: "createdBy (smith_family\<lparr> members := [''u1'', ''u2''] \<rparr>) = ''u1''"
    by (simp add: smith_family_def)
  note t = creator_stays_member [OF h, unfolded cr]
  have c1: "removeFamilyMember (Some ''u2'') 5 ''f1'' ''u1'' world_joined =
     (Inl (Error ''Only the family admin can remove members''), world_joined)"
    using t [where auth = "Some ''u2''" and srv = 5]
    by (simp add: member_defs example_defs)
  have c2: "removeFamilyMember (Some ''u1'') 5 ''f1'' ''u1'' world_joined =
     (Inl (Error ''Cannot remove the family admin''), world_joined)"
    using t [where auth = "Some ''u1''" and srv = 5]
    by (simp add: member_defs example_defs)
  have c3: "leaveFamily (Some ''u1'') 5 ''f1'' world_joined =
     (Inl (Error ''Family admin cannot leave. Transfer ownership or delete the family.''),
      world_joined)"
    using t [where srv = 5] by blast
  have c4: "''u1'' \<in> set (members (smith_family\<lparr> members := [''u1'', ''u2''] \<rparr>))"
    by simp
  have c5: "families_coll (snd (removeFamilyMember (Some ''u1'') 5 ''f1'' ''u2'' world_joined))
       ''f1'' = Some (smith_family\<lparr> members := [''u1''], updatedAt := 5 \<rparr>)"
    using t [where auth = "Some ''u1''" and srv = 5 and fid' = "''f1''" and m = "''u2''"]
    by (simp add: member_defs store_defs example_defs)
  have c6: "families_coll (snd (leaveFamily (Some ''u2'') 5 ''f1'' world_joined)) ''f1'' =
       Some (smith_family\<lparr> members := [''u1''], updatedAt := 5 \<rparr>)"
    using t [where auth = "Some ''u2''" and srv = 5 and fid' = "''f1''"]
    by (simp add: member_defs store_defs example_defs)
  from h c1 c2 c3 c4 c5 c6 show ?thesis by blast
qed

text \<open>
  C8: for a user whose document exists, \<^verbatim>\<open>addFamilyToUser\<close> succeeds and leaves the family
  id in the user's families (appended if it was absent, the array untouched if it was
  present); a second call with the same user and family, at any later server time,
  succeeds as well and returns the store exactly as the first call left it, so no
  duplicate entry is added and nothing is written.
\<close>

theorem addFamilyToUser_idempotent:
  assumes "users_coll w uid = Some usr"
  shows "\<exists>w1 usr1. addFamilyToUser srv uid fid w = (Inr (), w1) \<and>
           users_coll w1 uid = Some usr1 \<and>
           families usr1 =
             (if fid \<in> set (families usr) then families usr else families usr @ [fid]) \<and>
           addFamilyToUser srv' uid fid w1 = (Inr (), w1)"
  using assms
  by (simp add: addFamilyToUser_def addFamilyToUser_try_def store_defs)

theorem addFamilyToUser_idempotent_witness:
  "users_coll world_smith ''u2'' = Some (user_doc ''b@example.org'' []) \<and>
   addFamilyToUser 5 ''u2'' ''f1'' world_smith =
     (Inr (), world_smith
        \<lparr> users_coll := (users_coll world_smith)
            (''u2'' \<mapsto> (user_doc ''b@example.org'' [''f1''])\<lparr> user_updatedAt := 5 \<rparr>),
          writes := [updateDoc ''users'' ''u2''] \<rparr>) \<and>
   addFamilyToUser 9 ''u2'' ''f1''
     (world_smith
        \<lparr> users_coll := (users_coll world_smith)
            (''u2'' \<mapsto> (user_doc ''b@example.org'' [''f1''])\<lparr> user_updatedAt := 5 \<rparr>),
          writes := [updateDoc ''users'' ''u2''] \<rparr>) =
     (Inr (), world_smith
        \<lparr> users_coll := (users_coll world_smith)
            (''u2'' \<mapsto> (user_doc ''b@example.org'' [''f1''])\<lparr> user_updatedAt := 5 \<rparr>),
          writes := [updateDoc ''users'' ''u2''] \<rparr>)"
proof -
  have h: "users_coll world_smith ''u2'' = Some (user_doc ''b@example.org'' [])"
    by (simp add: example_defs)
  have r: "addFamilyToUser 5 ''u2'' ''f1'' world_smith =
     (Inr (), world_smith
        \<lparr> users_coll := (users_coll world_smith)
            (''u2'' \<mapsto> (user_doc ''b@example.org'' [''f1''])\<lparr> user_updatedAt := 5 \<rparr>),
          writes := [updateDoc ''users'' ''u2''] \<rparr>)"
    by (simp add: addFamilyToUser_def addFamilyToUser_try_def store_defs example_defs)
  from addFamilyToUser_idempotent [OF h, of 5 "''f1''" 9] r h
  show ?thesis by auto
qed

text \<open>
  C10: a successful \<^verbatim>\<open>removeFamilyMember(f, m)\<close> replaces the members of \<open>f\<close> by the
  members without \<open>m\<close> and leaves the users collection as it was: the user document of
  \<open>m\<close> is not modified, and if its families array contained \<open>f\<close> before, it still does.
\<close>

theorem removeFamilyMember_keeps_user_documents:
  assumes "removeFamilyMember auth srv fid m w = (Inr (), w')"
  shows "(\<exists>fam. families_coll w fid = Some fam \<and>
            families_coll w' fid =
              Some (fam\<lparr> members := filter (\<lambda>x. x \<noteq> m) (members fam), updatedAt := srv \<rparr>)) \<and>
         users_coll w' = users_coll w \<and>
         (\<forall>usr. users_coll w m = Some usr \<and> fid \<in> set (families usr) \<longrightarrow>
            users_coll w' m = Some usr \<and> fid \<in> set (families usr))"
  using assms
  by (cases auth; cases "families_coll w fid")
     (auto simp add: member_defs store_defs split: if_splits)

theorem removeFamilyMember_keeps_user_documents_witness:
  "removeFamilyMember (Some ''u1'') 5 ''f1'' ''u2'' world_joined =
     (Inr (), world_joined
        \<lparr> families_coll := [''f1'' \<mapsto> smith_family\<lparr> members := [''u1''], updatedAt := 5 \<rparr>],
          writes := [updateDoc ''families'' ''f1''] \<rparr>) \<and>
   users_coll world_joined ''u2'' = Some (user_doc ''b@example.org'' [''f1'']) \<and>
   ''f1'' \<in> set (families (user_doc ''b@example.org'' [''f1''])) \<and>
   users_coll (world_joined
        \<lparr> families_coll := [''f1'' \<mapsto> smith_family\<lparr> members := [''u1''], updatedAt := 5 \<rparr>],
          writes := [updateDoc ''families'' ''f1''] \<rparr>) ''u2'' =
     Some (user_doc ''b@example.org'' [''f1''])"
proof -
  have r: "removeFamilyMember (Some ''u1'') 5 ''f1'' ''u2'' world_joined =
     (Inr (), world_joined
        \<lparr> families_coll := [''f1'' \<mapsto> smith_family\<lparr> members := [''u1''], updatedAt := 5 \<rparr>],
          writes := [updateDoc ''families'' ''f1''] \<rparr>)"
    by (simp add: member_defs store_defs example_defs)
  have h: "users_coll world_joined ''u2'' = Some (user_doc ''b@example.org'' [''f1'']) \<and>
      ''f1'' \<in> set (families (user_doc ''b@example.org'' [''f1'']))"
    by (simp add: example_defs)
  from removeFamilyMember_keeps_user_documents [OF r] h
  have "users_coll (world_joined
        \<lparr> families_coll := [''f1'' \<mapsto> smith_family\<lparr> members := [''u1''], updatedAt := 5 \<rparr>],
          writes := [updateDoc ''families'' ''f1''] \<rparr>) ''u2'' =
     Some (user_doc ''b@example.org'' [''f1''])"
    by blast
  with r h show ?thesis by blast
qed

end
